theory Spec2Isabelle
  imports Complex_Main
begin

section \<open>The AdamW optimizer of optimizer.py\<close>

text \<open>
  A shallow embedding of the class \<open>AdamW\<close> (optimizer.py): its constructor and its
  \<open>step\<close> method.

  Numbers. Python floats and the elements of gradients and moment averages are read as
  real numbers: rounding and overflow are outside this model. Where Python itself raises
  on a scalar (\<open>math.sqrt\<close> of a negative number, a float division by zero) the model
  has the error as a value. torch does not raise there: the square root of a negative
  element is NaN and a division by a zero element is NaN or an infinity, and such a value
  stays NaN or infinite under the additions and multiplications of the update. An
  element of a parameter is therefore a real number or \<open>None\<close>, which stands for a
  value that is not a finite number.

  A tensor is the list of its elements; the element-wise operations of torch are maps
  over these lists. torch gives a gradient the shape of its parameter and \<open>zeros_like\<close>
  gives the moment averages that shape too, so the statements about single elements
  below take the lists of one parameter to have one length.

  Objects. A parameter is named by an identity (\<open>pid\<close>); the tensors live in a store
  from identities to parameters, the optimizer's \<open>self.state\<close> is a map from identities
  to per-parameter state, and an empty state dictionary is an absent entry of the map.
\<close>

subsection \<open>Data\<close>

type_synonym tensor = "real list"

type_synonym elem = "real option"

type_synonym pid = nat

datatype gradient = Gradient (gdata: tensor) (is_sparse: bool)

record param =
  data :: "elem list"
  grad :: "gradient option"

record pstate =
  step :: nat
  exp_avg :: tensor
  exp_avg_sq :: tensor

record hyper =
  lr :: real
  betas :: "real \<times> real"
  eps :: real
  weight_decay :: real
  correct_bias :: bool

record group = hyper +
  params :: "pid list"

record optimizer =
  param_groups :: "group list"
  state :: "pid \<rightharpoonup> pstate"

record world = optimizer +
  tensors :: "pid \<Rightarrow> param"

text \<open>
  The exceptions of the source: a \<open>ValueError\<close> carries its format string and the
  values formatted into it, the others their message.
\<close>

datatype error =
  ValueError string "real list"
  | RuntimeError string
  | ZeroDivisionError string

subsection \<open>The constructor\<close>

text \<open>
  \<open>AdamW.__init__\<close>, lines 18 to 27. The constructor of the base class
  (\<open>torch.optim.Optimizer.__init__\<close>, called in line 27) is not part of this
  repository: it is the parameter \<open>super_init\<close>, which receives the parameters and the
  dictionary of defaults.
\<close>

definition AdamW_init ::
  "('ps \<Rightarrow> hyper \<Rightarrow> error + 'o) \<Rightarrow> 'ps \<Rightarrow> real \<Rightarrow> real \<times> real \<Rightarrow> real \<Rightarrow> real \<Rightarrow> bool
    \<Rightarrow> error + 'o" where
  "AdamW_init super_init ps lr' betas' eps' weight_decay' correct_bias' =
    (if lr' < 0 then
       Inl (ValueError ''Invalid learning rate: {} - should be >= 0.0'' [lr'])
     else if \<not> (0 \<le> fst betas' \<and> fst betas' < 1) then
       Inl (ValueError ''Invalid beta parameter: {} - should be in [0.0, 1.0['' [fst betas'])
     else if \<not> (0 \<le> snd betas' \<and> snd betas' < 1) then
       Inl (ValueError ''Invalid beta parameter: {} - should be in [0.0, 1.0['' [snd betas'])
     else if \<not> 0 \<le> eps' then
       Inl (ValueError ''Invalid epsilon value: {} - should be >= 0.0'' [eps'])
     else
       super_init ps
         \<lparr>lr = lr', betas = betas', eps = eps', weight_decay = weight_decay',
          correct_bias = correct_bias'\<rparr>)"

text \<open>
  A base constructor for concrete evaluations: the case of a plain list of parameters,
  which become one group holding the defaults, with no per-parameter state yet.
\<close>

definition Optimizer_init :: "pid list \<Rightarrow> hyper \<Rightarrow> error + optimizer" where
  "Optimizer_init ps d =
    Inr \<lparr>param_groups =
           [\<lparr>lr = lr d, betas = betas d, eps = eps d, weight_decay = weight_decay d,
             correct_bias = correct_bias d, params = ps\<rparr>],
         state = Map.empty\<rparr>"

definition world_of :: "optimizer \<Rightarrow> (pid \<Rightarrow> param) \<Rightarrow> world" where
  "world_of opt ts = \<lparr>param_groups = param_groups opt, state = state opt, tensors = ts\<rparr>"

subsection \<open>Element-wise tensor operations\<close>

definition zeros_like :: "elem list \<Rightarrow> tensor" where
  "zeros_like t = map (\<lambda>_. 0) t"

definition t_scale :: "real \<Rightarrow> tensor \<Rightarrow> tensor" where
  "t_scale c t = map (\<lambda>x. c * x) t"

definition t_add :: "tensor \<Rightarrow> tensor \<Rightarrow> tensor" where
  "t_add s t = map2 (\<lambda>x y. x + y) s t"

definition t_pow2 :: "tensor \<Rightarrow> tensor" where
  "t_pow2 t = map (\<lambda>x. x ^ 2) t"

text \<open>\<open>t.sqrt()\<close>: the square root of a negative element is NaN.\<close>

definition t_sqrt :: "tensor \<Rightarrow> elem list" where
  "t_sqrt t = map (\<lambda>x. if x < 0 then None else Some (sqrt x)) t"

definition t_add_scalar :: "elem list \<Rightarrow> real \<Rightarrow> elem list" where
  "t_add_scalar t c = map (map_option (\<lambda>x. x + c)) t"

text \<open>
  \<open>input.addcdiv_(tensor1, tensor2, value=v)\<close>: \<open>input + v * tensor1 / tensor2\<close>. The
  result is a finite number when the input and the divisor are finite and the divisor
  is not zero; a zero divisor gives NaN or an infinity, and a NaN or an infinity in the
  input or the divisor stays one.
\<close>

definition addcdiv :: "elem list \<Rightarrow> tensor \<Rightarrow> elem list \<Rightarrow> real \<Rightarrow> elem list" where
  "addcdiv inp t1 t2 v =
    map2 (\<lambda>x (a, d).
            case (x, d) of
              (Some x', Some d') \<Rightarrow> if d' = 0 then None else Some (x' + v * a / d')
            | _ \<Rightarrow> None)
      inp (zip t1 t2)"

text \<open>
  \<open>input.add_(other, alpha=a)\<close>: \<open>input + a * other\<close>; a NaN or an infinity in either
  stays one.
\<close>

definition add_alpha :: "elem list \<Rightarrow> elem list \<Rightarrow> real \<Rightarrow> elem list" where
  "add_alpha inp other a =
    map2 (\<lambda>x y. case (x, y) of (Some x', Some y') \<Rightarrow> Some (x' + a * y') | _ \<Rightarrow> None)
      inp other"

subsection \<open>One parameter of one step\<close>

text \<open>
  Lines 64 to 69: the effective step size at step count \<open>n\<close>. \<open>math.sqrt\<close> raises a
  \<open>ValueError\<close> on a negative argument, and the float division raises on a zero divisor;
  the product with the square root is evaluated before the division.
\<close>

definition step_size :: "group \<Rightarrow> nat \<Rightarrow> error + real" where
  "step_size g n =
    (let alpha = lr g; beta1 = fst (betas g); beta2 = snd (betas g) in
     if correct_bias g then
       (let bias_correction1 = 1 - beta1 ^ n;
            bias_correction2 = 1 - beta2 ^ n
        in if bias_correction2 < 0 then Inl (ValueError ''math domain error'' [])
           else if bias_correction1 = 0 then Inl (ZeroDivisionError ''float division by zero'')
           else Inr (alpha * sqrt bias_correction2 / bias_correction1))
     else Inr alpha)"

text \<open>Lines 46 to 49: the state of a parameter seen for the first time.\<close>

definition init_state :: "param \<Rightarrow> pstate" where
  "init_state p = \<lparr>step = 0, exp_avg = zeros_like (data p), exp_avg_sq = zeros_like (data p)\<rparr>"

text \<open>Lines 59 to 61: the step count and the two moment averages.\<close>

definition update_moments :: "group \<Rightarrow> tensor \<Rightarrow> pstate \<Rightarrow> pstate" where
  "update_moments g gr s =
    (let beta1 = fst (betas g); beta2 = snd (betas g) in
     \<lparr>step = step s + 1,
      exp_avg = t_add (t_scale beta1 (exp_avg s)) (t_scale (1 - beta1) gr),
      exp_avg_sq = t_add (t_scale beta2 (exp_avg_sq s)) (t_scale (1 - beta2) (t_pow2 gr))\<rparr>)"

text \<open>
  Lines 36 to 77, the body of the inner loop, on the parameter and its entry of
  \<open>self.state\<close>. The result is the exception raised (if any), the parameter and the
  entry as the body leaves them: an exception of the step size comes after the state
  has been written.
\<close>

definition update_one :: "group \<Rightarrow> param \<Rightarrow> pstate option \<Rightarrow> error option \<times> param \<times> pstate option" where
  "update_one g p st =
    (case grad p of
       None \<Rightarrow> (None, p, st)
     | Some gr \<Rightarrow>
         if is_sparse gr then
           (Some (RuntimeError
              ''Adam does not support sparse gradients, please consider SparseAdam instead''),
            p, st)
         else
           (let s0 = (case st of None \<Rightarrow> init_state p | Some s \<Rightarrow> s);
                s1 = update_moments g (gdata gr) s0
            in case step_size g (step s1) of
                 Inl e \<Rightarrow> (Some e, p, Some s1)
               | Inr ss \<Rightarrow>
                   (let denom = t_add_scalar (t_sqrt (exp_avg_sq s1)) (eps g);
                        d1 = addcdiv (data p) (exp_avg s1) denom (- ss);
                        d2 = (if weight_decay g \<noteq> 0
                              then add_alpha d1 d1 (- lr g * weight_decay g) else d1)
                    in (None, p\<lparr>data := d2\<rparr>, Some s1))))"

definition step_param :: "group \<Rightarrow> pid \<Rightarrow> world \<Rightarrow> error option \<times> world" where
  "step_param g p w =
    (case update_one g (tensors w p) (state w p) of
       (e, p', st') \<Rightarrow> (e, w\<lparr>state := (state w)(p := st'), tensors := (tensors w)(p := p')\<rparr>))"

subsection \<open>The step\<close>

text \<open>The loops of lines 34 and 35; an exception ends them.\<close>

fun step_params :: "group \<Rightarrow> pid list \<Rightarrow> world \<Rightarrow> error option \<times> world" where
  "step_params g [] w = (None, w)"
| "step_params g (p # ps) w =
    (case step_param g p w of
       (Some e, w') \<Rightarrow> (Some e, w')
     | (None, w') \<Rightarrow> step_params g ps w')"

fun step_groups :: "group list \<Rightarrow> world \<Rightarrow> error option \<times> world" where
  "step_groups [] w = (None, w)"
| "step_groups (g # gs) w =
    (case step_params g (params g) w of
       (Some e, w') \<Rightarrow> (Some e, w')
     | (None, w') \<Rightarrow> step_groups gs w')"

text \<open>
  \<open>AdamW.step\<close>. A closure is a computation on the world that returns the loss; the
  result of the step is the exception, or the loss (\<open>None\<close> without a closure).
\<close>

definition AdamW_step :: "(world \<Rightarrow> 'l \<times> world) option \<Rightarrow> world \<Rightarrow> (error + 'l option) \<times> world" where
  "AdamW_step closure w =
    (case (case closure of None \<Rightarrow> (None, w) | Some c \<Rightarrow> (case c w of (l, w0) \<Rightarrow> (Some l, w0))) of
       (loss, w0) \<Rightarrow>
         (case step_groups (param_groups w0) w0 of
            (Some e, w1) \<Rightarrow> (Inl e, w1)
          | (None, w1) \<Rightarrow> (Inr loss, w1)))"

subsection \<open>Notions used by the statements\<close>

text \<open>
  The order in which the two loops reach the parameters: each parameter with its group.
\<close>

definition schedule :: "group list \<Rightarrow> (group \<times> pid) list" where
  "schedule gs = concat (map (\<lambda>g. map (Pair g) (params g)) gs)"

text \<open>The loop body along such a list; \<open>step_groups\<close> runs it along \<open>schedule\<close>.\<close>

fun step_pairs :: "(group \<times> pid) list \<Rightarrow> world \<Rightarrow> error option \<times> world" where
  "step_pairs [] w = (None, w)"
| "step_pairs ((g, p) # xs) w =
    (case step_param g p w of
       (Some e, w') \<Rightarrow> (Some e, w')
     | (None, w') \<Rightarrow> step_pairs xs w')"

text \<open>
  The gradient and the moment averages of a parameter have the parameter's number of
  elements.
\<close>

definition same_shape :: "param \<Rightarrow> pstate option \<Rightarrow> bool" where
  "same_shape p st =
    ((case grad p of None \<Rightarrow> True | Some gr \<Rightarrow> length (gdata gr) = length (data p)) \<and>
     (case st of None \<Rightarrow> True
      | Some s \<Rightarrow> length (exp_avg s) = length (data p) \<and> length (exp_avg_sq s) = length (data p)))"

text \<open>
  \<open>n\<close> calls of \<open>step()\<close> without a closure, one after the other, whatever each call
  returns or raises.
\<close>

fun repeat_step :: "nat \<Rightarrow> world \<Rightarrow> world" where
  "repeat_step 0 w = w"
| "repeat_step (Suc n) w =
    repeat_step n (snd (AdamW_step (None :: (world \<Rightarrow> unit \<times> world) option) w))"

text \<open>The state a parameter's update starts from: its entry, or the fresh one.\<close>

definition state_before :: "world \<Rightarrow> pid \<Rightarrow> pstate" where
  "state_before w p = (case state w p of None \<Rightarrow> init_state (tensors w p) | Some s \<Rightarrow> s)"

text \<open>
  A concrete world: one group with the default hyperparameters of the constructor and
  one parameter, of one element \<open>x\<close> with the dense gradient \<open>d\<close>.
\<close>

definition default_hyper :: hyper where
  "default_hyper =
    \<lparr>lr = 1 / 1000, betas = (9 / 10, 999 / 1000), eps = 1 / 1000000, weight_decay = 0,
     correct_bias = True\<rparr>"

definition scalar_param :: "real \<Rightarrow> real \<Rightarrow> param" where
  "scalar_param x d = \<lparr>data = [Some x], grad = Some (Gradient [d] False)\<rparr>"

definition scalar_group :: "hyper \<Rightarrow> group" where
  "scalar_group h =
    \<lparr>lr = lr h, betas = betas h, eps = eps h, weight_decay = weight_decay h,
     correct_bias = correct_bias h, params = [0]\<rparr>"

definition scalar_world :: "hyper \<Rightarrow> real \<Rightarrow> real \<Rightarrow> world" where
  "scalar_world h x d =
    \<lparr>param_groups = [scalar_group h], state = Map.empty, tensors = (\<lambda>_. scalar_param x d)\<rparr>"


text \<open>
  One group of three parameters, the second with a sparse gradient, the others dense.
\<close>

definition sparse_world :: world where
  "sparse_world =
    \<lparr>param_groups = [(scalar_group default_hyper)\<lparr>params := [0, 1, 2]\<rparr>],
     state = Map.empty,
     tensors = (\<lambda>_. scalar_param 1 (1 / 2))
       (1 := \<lparr>data = [Some 1], grad = Some (Gradient [1 / 2] True)\<rparr>)\<rparr>"

text \<open>One group of two parameters, the first without a gradient.\<close>

definition idle_world :: world where
  "idle_world =
    \<lparr>param_groups = [(scalar_group default_hyper)\<lparr>params := [0, 1]\<rparr>],
     state = Map.empty,
     tensors = (\<lambda>_. scalar_param 1 (1 / 2))(0 := \<lparr>data = [Some 1], grad = None\<rparr>)\<rparr>"

text \<open>A closure that attaches a gradient to parameter 0 and returns the loss 7.\<close>

definition attach_closure :: "world \<Rightarrow> nat \<times> world" where
  "attach_closure w = (7, w\<lparr>tensors := (tensors w)(0 := scalar_param 1 (1 / 2))\<rparr>)"

section \<open>Properties\<close>

subsection \<open>The loops touch one parameter at a time\<close>

lemma step_param_other:
  "q \<noteq> p \<Longrightarrow>
     tensors (snd (step_param g p w)) q = tensors w q \<and>
     state (snd (step_param g p w)) q = state w q"
  by (simp add: step_param_def split: prod.splits)

lemma step_param_groups: "param_groups (snd (step_param g p w)) = param_groups w"
  by (simp add: step_param_def split: prod.splits)

lemma step_param_at:
  "update_one g (tensors w p) (state w p) =
     (fst (step_param g p w), tensors (snd (step_param g p w)) p,
      state (snd (step_param g p w)) p)"
  by (simp add: step_param_def split: prod.splits)

lemma step_pairs_append:
  "step_pairs (xs @ ys) w =
     (case step_pairs xs w of (Some e, w') \<Rightarrow> (Some e, w') | (None, w') \<Rightarrow> step_pairs ys w')"
  by (induction xs w rule: step_pairs.induct) (auto split: prod.splits option.splits)

lemma step_params_pairs: "step_params g ps w = step_pairs (map (Pair g) ps) w"
  by (induction ps arbitrary: w) (auto split: prod.splits option.splits)

lemma step_groups_pairs: "step_groups gs w = step_pairs (schedule gs) w"
  by (induction gs arbitrary: w)
     (auto simp: schedule_def step_pairs_append step_params_pairs split: prod.splits option.splits)

lemma step_pairs_other:
  "q \<notin> snd ` set xs \<Longrightarrow>
     tensors (snd (step_pairs xs w)) q = tensors w q \<and> state (snd (step_pairs xs w)) q = state w q"
proof (induction xs arbitrary: w)
  case Nil
  then show ?case by simp
next
  case (Cons x xs)
  obtain g p where x: "x = (g, p)" by (cases x)
  obtain e w' where sp: "step_param g p w = (e, w')" by (cases "step_param g p w")
  from Cons.prems x have qp: "q \<noteq> p" and qxs: "q \<notin> snd ` set xs" by auto
  from step_param_other[OF qp, of g w] sp
  have same: "tensors w' q = tensors w q" "state w' q = state w q" by simp_all
  show ?case
  proof (cases e)
    case None
    with Cons.IH[OF qxs, of w'] sp same x show ?thesis by simp
  next
    case (Some a)
    with sp same x show ?thesis by simp
  qed
qed

lemma step_pairs_groups: "param_groups (snd (step_pairs xs w)) = param_groups w"
proof (induction xs arbitrary: w)
  case Nil
  then show ?case by simp
next
  case (Cons x xs)
  obtain g p where x: "x = (g, p)" by (cases x)
  obtain e w' where sp: "step_param g p w = (e, w')" by (cases "step_param g p w")
  from step_param_groups[of g p w] sp have pg: "param_groups w' = param_groups w" by simp
  show ?case
  proof (cases e)
    case None
    with Cons.IH[of w'] sp pg x show ?thesis by simp
  next
    case (Some a)
    with sp pg x show ?thesis by simp
  qed
qed

lemma step_pairs_at:
  assumes "distinct (map snd xs)" "fst (step_pairs xs w) = None" "(g, p) \<in> set xs"
  shows "update_one g (tensors w p) (state w p) =
           (None, tensors (snd (step_pairs xs w)) p, state (snd (step_pairs xs w)) p)"
  using assms
proof (induction xs arbitrary: w)
  case Nil
  then show ?case by simp
next
  case (Cons x xs)
  obtain g' p' where x: "x = (g', p')" by (cases x)
  obtain e w' where sp: "step_param g' p' w = (e, w')" by (cases "step_param g' p' w")
  from Cons.prems(2) sp x have e: "e = None" by (cases e) auto
  from Cons.prems(1) x have d: "distinct (map snd xs)" and p'xs: "p' \<notin> snd ` set xs" by auto
  from Cons.prems(2) sp e x have ok: "fst (step_pairs xs w') = None" by simp
  show ?case
  proof (cases "(g, p) = (g', p')")
    case True
    from step_pairs_other[OF p'xs, of w'] step_param_at[of g' "w" p'] sp e True x
    show ?thesis by simp
  next
    case False
    with Cons.prems(3) x have mem: "(g, p) \<in> set xs" by auto
    then have "p \<in> snd ` set xs" by force
    with p'xs have "p \<noteq> p'" by auto
    from step_param_other[OF this, of g' w] sp
    have same: "tensors w' p = tensors w p" "state w' p = state w p" by simp_all
    from Cons.IH[OF d ok mem] sp e same x show ?thesis by simp
  qed
qed

subsection \<open>One parameter\<close>

lemma nth_addcdiv:
  "i < length inp \<Longrightarrow> length t1 = length inp \<Longrightarrow> length t2 = length inp \<Longrightarrow>
     addcdiv inp t1 t2 v ! i =
       (case (inp ! i, t2 ! i) of
          (Some x, Some d) \<Rightarrow> if d = 0 then None else Some (x + v * (t1 ! i) / d)
        | _ \<Rightarrow> None)"
  by (simp add: addcdiv_def)

lemma length_addcdiv:
  "length t1 = length inp \<Longrightarrow> length t2 = length inp \<Longrightarrow> length (addcdiv inp t1 t2 v) = length inp"
  by (simp add: addcdiv_def)

lemma add_alpha_self: "add_alpha d d a = map (map_option (\<lambda>x. x + a * x)) d"
  by (induction d) (simp_all add: add_alpha_def split: option.splits)

lemma length_update_moments:
  "length (exp_avg s) = n \<Longrightarrow> length (exp_avg_sq s) = n \<Longrightarrow> length gr = n \<Longrightarrow>
     length (exp_avg (update_moments g gr s)) = n \<and> length (exp_avg_sq (update_moments g gr s)) = n"
  by (simp add: update_moments_def t_add_def t_scale_def t_pow2_def Let_def)

lemma nth_update_moments:
  "i < n \<Longrightarrow> length (exp_avg s) = n \<Longrightarrow> length (exp_avg_sq s) = n \<Longrightarrow> length gr = n \<Longrightarrow>
     exp_avg (update_moments g gr s) ! i = fst (betas g) * exp_avg s ! i + (1 - fst (betas g)) * gr ! i \<and>
     exp_avg_sq (update_moments g gr s) ! i =
       snd (betas g) * exp_avg_sq s ! i + (1 - snd (betas g)) * (gr ! i) ^ 2"
  by (simp add: update_moments_def t_add_def t_scale_def t_pow2_def Let_def)

lemma step_update_moments: "step (update_moments g gr s) = step s + 1"
  by (simp add: update_moments_def Let_def)

lemma update_one_dense:
  assumes "grad p = Some gr" "\<not> is_sparse gr" "update_one g p st = (None, p', st')"
  shows "\<exists>ss. st' = Some (update_moments g (gdata gr) (case st of None \<Rightarrow> init_state p | Some s \<Rightarrow> s)) \<and>
           step_size g (step (the st')) = Inr ss \<and>
           grad p' = grad p \<and>
           data p' =
             (let d1 = addcdiv (data p) (exp_avg (the st'))
                         (t_add_scalar (t_sqrt (exp_avg_sq (the st'))) (eps g)) (- ss)
              in if weight_decay g \<noteq> 0 then add_alpha d1 d1 (- lr g * weight_decay g) else d1)"
  using assms
  by (auto simp: update_one_def Let_def split: sum.splits)

lemma step_size_cases:
  "step_size g n = Inr ss \<Longrightarrow>
     ss = (if correct_bias g
           then lr g * sqrt (1 - snd (betas g) ^ n) / (1 - fst (betas g) ^ n) else lr g)"
  by (auto simp: step_size_def Let_def split: if_splits)


lemma AdamW_step_None:
  "AdamW_step None w =
     (case step_pairs (schedule (param_groups w)) w of
        (Some e, w1) \<Rightarrow> (Inl e, w1) | (None, w1) \<Rightarrow> (Inr None, w1))"
  by (simp add: AdamW_step_def step_groups_pairs)

lemma AdamW_step_None_snd:
  "snd (AdamW_step None w) = snd (step_pairs (schedule (param_groups w)) w)"
  by (simp add: AdamW_step_None split: prod.splits option.splits)

lemma AdamW_step_None_ok:
  "fst (AdamW_step None w) = Inr None \<longleftrightarrow> fst (step_pairs (schedule (param_groups w)) w) = None"
  by (simp add: AdamW_step_None split: prod.splits option.splits)

lemma in_schedule: "(g, p) \<in> set (schedule gs) \<longleftrightarrow> g \<in> set gs \<and> p \<in> set (params g)"
  by (auto simp: schedule_def)

lemma AdamW_step_at:
  assumes "distinct (map snd (schedule (param_groups w)))"
    and "g \<in> set (param_groups w)" "p \<in> set (params g)"
    and "fst (AdamW_step None w) = Inr (None :: 'l option)"
  shows "update_one g (tensors w p) (state w p) =
           (None, tensors (snd (AdamW_step (None :: (world \<Rightarrow> 'l \<times> world) option) w)) p,
                  state (snd (AdamW_step (None :: (world \<Rightarrow> 'l \<times> world) option) w)) p)"
proof -
  have "(g, p) \<in> set (schedule (param_groups w))" using assms(2,3) by (simp add: in_schedule)
  from step_pairs_at[OF assms(1) _ this] assms(4) show ?thesis
    by (simp add: AdamW_step_None_ok AdamW_step_None_snd)
qed

lemma state_before_shape:
  assumes "same_shape (tensors w p) (state w p)"
  shows "length (exp_avg (state_before w p)) = length (data (tensors w p)) \<and>
         length (exp_avg_sq (state_before w p)) = length (data (tensors w p))"
  using assms
  by (auto simp: same_shape_def state_before_def init_state_def zeros_like_def split: option.splits)

lemma nth_decay:
  "i < length d \<Longrightarrow>
     (if wd \<noteq> 0 then add_alpha d d (- a * wd) else d) ! i =
     map_option (\<lambda>u. if wd \<noteq> 0 then u - a * wd * u else u) (d ! i)"
  by (cases "d ! i") (simp_all add: add_alpha_self)

lemma scalar_group_params: "0 \<in> set (params (scalar_group h))"
  by (simp add: scalar_group_def)

lemma scalar_world_facts:
  "distinct (map snd (schedule (param_groups (scalar_world h x d))))"
  "scalar_group h \<in> set (param_groups (scalar_world h x d))"
  "grad (tensors (scalar_world h x d) 0) = Some (Gradient [d] False)"
  "same_shape (tensors (scalar_world h x d) 0) (state (scalar_world h x d) 0)"
  "length (data (tensors (scalar_world h x d) 0)) = 1"
  "state (scalar_world h x d) 0 = None"
  by (simp_all add: scalar_world_def schedule_def scalar_group_def same_shape_def scalar_param_def)

lemma scalar_world_default_ok:
  "fst (AdamW_step (None :: (world \<Rightarrow> unit \<times> world) option) (scalar_world default_hyper x d)) = Inr None"
  by (simp add: AdamW_step_def scalar_world_def step_param_def update_one_def scalar_param_def
      step_size_def scalar_group_def default_hyper_def update_moments_def init_state_def Let_def)

subsection \<open>The update of a parameter with a dense gradient\<close>

text \<open>
  C1. Let the parameters of the groups be distinct and the step succeed. A parameter
  \<open>p\<close> of a group \<open>g\<close> with a dense gradient then holds, at each element whose
  denominator \<open>sqrt exp_avg_sq + eps\<close> is defined and not zero, the value
  \<open>u = param - step_size * exp_avg / (sqrt exp_avg_sq + eps)\<close>, where \<open>exp_avg\<close> and
  \<open>exp_avg_sq\<close> are the moment averages the step has just written, \<open>step_size\<close> is
  the effective step size at the new step count and \<open>eps\<close> is added to the square root;
  with a nonzero weight decay, \<open>u\<close> is then shrunk (C4). Where the denominator is zero
  (which \<open>eps = 0\<close> allows), or the second moment is negative, or the element was not a
  finite number before, the element is not a finite number afterwards.
\<close>

theorem step_updates_parameter:
  fixes w :: world
  defines "w' \<equiv> snd (AdamW_step (None :: (world \<Rightarrow> 'l \<times> world) option) w)"
  assumes dist: "distinct (map snd (schedule (param_groups w)))"
    and mem: "g \<in> set (param_groups w)" "p \<in> set (params g)"
    and ok: "fst (AdamW_step (None :: (world \<Rightarrow> 'l \<times> world) option) w) = Inr None"
    and gr: "grad (tensors w p) = Some gr" "\<not> is_sparse gr"
    and shape: "same_shape (tensors w p) (state w p)"
    and i: "i < length (data (tensors w p))"
  shows "\<exists>s' ss. state w' p = Some s' \<and> step_size g (step s') = Inr ss \<and>
      data (tensors w' p) ! i =
        (case data (tensors w p) ! i of
           None \<Rightarrow> None
         | Some x \<Rightarrow>
             if exp_avg_sq s' ! i < 0 \<or> sqrt (exp_avg_sq s' ! i) + eps g = 0 then None
             else (let u = x - ss * exp_avg s' ! i / (sqrt (exp_avg_sq s' ! i) + eps g)
                   in Some (if weight_decay g \<noteq> 0 then u - lr g * weight_decay g * u else u)))"
proof -
  let ?n = "length (data (tensors w p))"
  have u1: "update_one g (tensors w p) (state w p) = (None, tensors w' p, state w' p)"
    unfolding w'_def by (rule AdamW_step_at[OF dist mem ok])
  from update_one_dense[OF gr u1] obtain ss where
    st: "state w' p = Some (update_moments g (gdata gr) (state_before w p))"
    and ss: "step_size g (step (the (state w' p))) = Inr ss"
    and d: "data (tensors w' p) =
             (let d1 = addcdiv (data (tensors w p)) (exp_avg (the (state w' p)))
                         (t_add_scalar (t_sqrt (exp_avg_sq (the (state w' p)))) (eps g)) (- ss)
              in if weight_decay g \<noteq> 0 then add_alpha d1 d1 (- lr g * weight_decay g) else d1)"
    by (auto simp: state_before_def)
  define s' where "s' = update_moments g (gdata gr) (state_before w p)"
  have s': "state w' p = Some s'" using st by (simp add: s'_def)
  have lg: "length (gdata gr) = ?n" using shape gr by (simp add: same_shape_def)
  from state_before_shape[OF shape] length_update_moments[of "state_before w p" ?n "gdata gr" g] lg
  have len: "length (exp_avg s') = ?n" "length (exp_avg_sq s') = ?n"
    by (simp_all add: s'_def)
  let ?v = "exp_avg_sq s' ! i"
  let ?den = "t_add_scalar (t_sqrt (exp_avg_sq s')) (eps g)"
  let ?d1 = "addcdiv (data (tensors w p)) (exp_avg s') ?den (- ss)"
  let ?dec = "\<lambda>u. if weight_decay g \<noteq> 0 then u - lr g * weight_decay g * u else u"
  have lden: "length ?den = ?n" using len by (simp add: t_add_scalar_def t_sqrt_def)
  have ld1: "length ?d1 = ?n" using len lden by (simp add: length_addcdiv)
  have den_i: "?den ! i = (if ?v < 0 then None else Some (sqrt ?v + eps g))"
    using i len by (simp add: t_add_scalar_def t_sqrt_def)
  have d1_i: "?d1 ! i =
      (case data (tensors w p) ! i of
         None \<Rightarrow> None
       | Some x \<Rightarrow>
           if ?v < 0 \<or> sqrt ?v + eps g = 0 then None
           else Some (x - ss * exp_avg s' ! i / (sqrt ?v + eps g)))"
    using nth_addcdiv[of i "data (tensors w p)" "exp_avg s'" ?den "- ss"] i len lden den_i
    by (simp split: option.splits)
  have "data (tensors w' p) ! i =
          (if weight_decay g \<noteq> 0 then add_alpha ?d1 ?d1 (- lr g * weight_decay g) else ?d1) ! i"
    using d s' by (simp add: Let_def)
  also have "\<dots> = map_option ?dec (?d1 ! i)"
    using i ld1 by (intro nth_decay) simp
  finally have "data (tensors w' p) ! i =
        (case data (tensors w p) ! i of
           None \<Rightarrow> None
         | Some x \<Rightarrow>
             if ?v < 0 \<or> sqrt ?v + eps g = 0 then None
             else (let u = x - ss * exp_avg s' ! i / (sqrt ?v + eps g)
                   in Some (if weight_decay g \<noteq> 0 then u - lr g * weight_decay g * u else u)))"
    unfolding d1_i by (simp add: Let_def split: option.splits)
  with s' ss show ?thesis by auto
qed

lemma scalar_world_default_state:
  "state (snd (AdamW_step (None :: (world \<Rightarrow> unit \<times> world) option)
                 (scalar_world default_hyper 1 (1 / 2)))) 0 =
     Some \<lparr>step = 1, exp_avg = [1 / 20], exp_avg_sq = [1 / 4000]\<rparr>"
  by (simp add: AdamW_step_def scalar_world_def step_param_def update_one_def scalar_param_def
      step_size_def scalar_group_def default_hyper_def update_moments_def init_state_def Let_def
      zeros_like_def t_add_def t_scale_def t_pow2_def power2_eq_square)

theorem step_updates_parameter_witness:
  "\<exists>s' ss. state (snd (AdamW_step (None :: (world \<Rightarrow> unit \<times> world) option)
                  (scalar_world default_hyper 1 (1 / 2)))) 0 = Some s' \<and>
      step_size (scalar_group default_hyper) (step s') = Inr ss \<and>
      data (tensors (snd (AdamW_step (None :: (world \<Rightarrow> unit \<times> world) option)
                  (scalar_world default_hyper 1 (1 / 2)))) 0) ! 0 =
        Some (1 - ss * exp_avg s' ! 0 / (sqrt (exp_avg_sq s' ! 0) + 1 / 1000000))"
proof -
  let ?w = "scalar_world default_hyper 1 (1 / 2)"
  let ?w' = "snd (AdamW_step (None :: (world \<Rightarrow> unit \<times> world) option) ?w)"
  note f = scalar_world_facts[of default_hyper 1 "1 / 2"]
  have 6: "\<not> is_sparse (Gradient [1 / 2] False)" by simp
  have 8: "0 < length (data (tensors ?w 0))"
    by (simp add: f)
  have 9: "data (tensors ?w 0) ! 0 = Some 1" "eps (scalar_group default_hyper) = 1 / 1000000"
    "weight_decay (scalar_group default_hyper) = 0"
    by (simp_all add: scalar_world_def scalar_param_def scalar_group_def default_hyper_def)
  from step_updates_parameter[OF f(1,2) scalar_group_params scalar_world_default_ok f(3) 6 f(4) 8]
  obtain s' ss where s': "state ?w' 0 = Some s'"
    and ss: "step_size (scalar_group default_hyper) (step s') = Inr ss"
    and d: "data (tensors ?w' 0) ! 0 =
        (case data (tensors ?w 0) ! 0 of
           None \<Rightarrow> None
         | Some x \<Rightarrow>
             if exp_avg_sq s' ! 0 < 0 \<or>
                sqrt (exp_avg_sq s' ! 0) + eps (scalar_group default_hyper) = 0 then None
             else (let u = x - ss * exp_avg s' ! 0 /
                          (sqrt (exp_avg_sq s' ! 0) + eps (scalar_group default_hyper))
                   in Some (if weight_decay (scalar_group default_hyper) \<noteq> 0
                            then u - lr (scalar_group default_hyper)
                                   * weight_decay (scalar_group default_hyper) * u
                            else u)))"
    by blast
  from s' scalar_world_default_state have v: "exp_avg_sq s' ! 0 = 1 / 4000" by auto
  have pos: "0 < sqrt (1 / 4000 :: real) + 1 / 1000000"
    by (intro add_nonneg_pos) simp_all
  have "data (tensors ?w' 0) ! 0 =
      Some (1 - ss * exp_avg s' ! 0 / (sqrt (exp_avg_sq s' ! 0) + 1 / 1000000))"
    unfolding d 9 v using pos by (simp add: Let_def)
  with s' ss show ?thesis by blast
qed

text \<open>
  The case the side conditions of C1 exclude does occur: \<open>eps = 0\<close> passes the check of
  the constructor, and with a gradient of zero the denominator of the first update is
  zero, so that the element is no finite number afterwards.
\<close>

lemma zero_denominator_not_finite:
  "data (tensors (snd (AdamW_step (None :: (world \<Rightarrow> unit \<times> world) option)
                         (scalar_world (default_hyper\<lparr>eps := 0\<rparr>) 1 0))) 0) = [None]"
  by (simp add: AdamW_step_def scalar_world_def step_param_def update_one_def scalar_param_def
      step_size_def scalar_group_def default_hyper_def update_moments_def init_state_def Let_def
      zeros_like_def t_add_def t_scale_def t_pow2_def addcdiv_def t_add_scalar_def t_sqrt_def)

text \<open>
  C2. Under the same conditions the step count of the parameter grows by one and each
  moment average is \<open>beta * old + (1 - beta) * new\<close>, with the gradient for the first
  and its square for the second moment. From no state (counted from zero, averages
  zero) the step count is 1 and the averages are \<open>(1 - beta1) * grad\<close> and
  \<open>(1 - beta2) * grad\<^sup>2\<close>: a tenth and a thousandth at the default betas.
\<close>

theorem step_updates_moments:
  fixes w :: world
  defines "w' \<equiv> snd (AdamW_step (None :: (world \<Rightarrow> 'l \<times> world) option) w)"
  assumes dist: "distinct (map snd (schedule (param_groups w)))"
    and mem: "g \<in> set (param_groups w)" "p \<in> set (params g)"
    and ok: "fst (AdamW_step (None :: (world \<Rightarrow> 'l \<times> world) option) w) = Inr None"
    and gr: "grad (tensors w p) = Some gr" "\<not> is_sparse gr"
    and shape: "same_shape (tensors w p) (state w p)"
  shows "\<exists>s'. state w' p = Some s' \<and>
      step s' = step (state_before w p) + 1 \<and>
      (\<forall>i < length (data (tensors w p)).
         exp_avg s' ! i =
           fst (betas g) * exp_avg (state_before w p) ! i + (1 - fst (betas g)) * gdata gr ! i \<and>
         exp_avg_sq s' ! i =
           snd (betas g) * exp_avg_sq (state_before w p) ! i
             + (1 - snd (betas g)) * (gdata gr ! i) ^ 2) \<and>
      (state w p = None \<longrightarrow>
         step s' = 1 \<and>
         (\<forall>i < length (data (tensors w p)).
            exp_avg s' ! i = (1 - fst (betas g)) * gdata gr ! i \<and>
            exp_avg_sq s' ! i = (1 - snd (betas g)) * (gdata gr ! i) ^ 2)) \<and>
      (state w p = None \<and> betas g = (9 / 10, 999 / 1000) \<longrightarrow>
         (\<forall>i < length (data (tensors w p)).
            exp_avg s' ! i = 1 / 10 * gdata gr ! i \<and>
            exp_avg_sq s' ! i = 1 / 1000 * (gdata gr ! i) ^ 2))"
proof -
  let ?n = "length (data (tensors w p))"
  let ?s0 = "state_before w p"
  have u1: "update_one g (tensors w p) (state w p) = (None, tensors w' p, state w' p)"
    unfolding w'_def by (rule AdamW_step_at[OF dist mem ok])
  define s' where "s' = update_moments g (gdata gr) ?s0"
  from update_one_dense[OF gr u1] have s': "state w' p = Some s'"
    by (auto simp: state_before_def s'_def)
  have lg: "length (gdata gr) = ?n" using shape gr by (simp add: same_shape_def)
  note l0 = state_before_shape[OF shape]
  have cnt: "step s' = step ?s0 + 1" by (simp add: s'_def step_update_moments)
  have el: "exp_avg s' ! i =
           fst (betas g) * exp_avg ?s0 ! i + (1 - fst (betas g)) * gdata gr ! i \<and>
         exp_avg_sq s' ! i =
           snd (betas g) * exp_avg_sq ?s0 ! i + (1 - snd (betas g)) * (gdata gr ! i) ^ 2"
    if "i < ?n" for i
    unfolding s'_def using nth_update_moments[OF that, of ?s0 "gdata gr" g] l0 lg by simp
  have fresh0: "step ?s0 = 0" if "state w p = None"
    using that by (simp add: state_before_def init_state_def)
  have fresh: "exp_avg ?s0 ! i = 0 \<and> exp_avg_sq ?s0 ! i = 0" if "state w p = None" "i < ?n" for i
    using that by (simp add: state_before_def init_state_def zeros_like_def)
  have a: "\<forall>i < ?n. exp_avg s' ! i =
           fst (betas g) * exp_avg ?s0 ! i + (1 - fst (betas g)) * gdata gr ! i \<and>
         exp_avg_sq s' ! i =
           snd (betas g) * exp_avg_sq ?s0 ! i + (1 - snd (betas g)) * (gdata gr ! i) ^ 2"
    using el by blast
  have b: "state w p = None \<longrightarrow>
         step s' = 1 \<and>
         (\<forall>i < ?n.
            exp_avg s' ! i = (1 - fst (betas g)) * gdata gr ! i \<and>
            exp_avg_sq s' ! i = (1 - snd (betas g)) * (gdata gr ! i) ^ 2)"
    using el fresh fresh0 cnt by simp
  have c: "state w p = None \<and> betas g = (9 / 10, 999 / 1000) \<longrightarrow>
         (\<forall>i < ?n.
            exp_avg s' ! i = 1 / 10 * gdata gr ! i \<and>
            exp_avg_sq s' ! i = 1 / 1000 * (gdata gr ! i) ^ 2)"
    using el fresh by simp
  show ?thesis
    by (rule exI[of _ s']) (intro conjI s' cnt a b c)
qed

theorem step_updates_moments_witness:
  "\<exists>s'. state (snd (AdamW_step (None :: (world \<Rightarrow> unit \<times> world) option)
                  (scalar_world default_hyper 1 (1 / 2)))) 0 = Some s' \<and>
      step s' = 1 \<and> exp_avg s' ! 0 = 1 / 20 \<and> exp_avg_sq s' ! 0 = 1 / 4000"
proof -
  let ?w = "scalar_world default_hyper 1 (1 / 2)"
  note f = scalar_world_facts[of default_hyper 1 "1 / 2"]
  have 6: "\<not> is_sparse (Gradient [1 / 2] False)" by simp
  have 7: "betas (scalar_group default_hyper) = (9 / 10, 999 / 1000)"
    by (simp add: scalar_group_def default_hyper_def)
  from step_updates_moments[OF f(1,2) scalar_group_params scalar_world_default_ok f(3) 6 f(4)]
  show ?thesis
    by (auto simp add: f 7 power2_eq_square)
qed

subsection \<open>Further facts about one parameter and the loops\<close>





lemma update_one_grad: "grad (fst (snd (update_one g p st))) = grad p"
  by (simp add: update_one_def Let_def split: option.splits sum.splits)

lemma step_param_grad: "grad (tensors (snd (step_param g p w)) q) = grad (tensors w q)"
  using update_one_grad[of g "tensors w p" "state w p"]
  by (cases "q = p") (auto simp: step_param_def split: prod.splits)

lemma step_pairs_grad: "grad (tensors (snd (step_pairs xs w)) q) = grad (tensors w q)"
proof (induction xs arbitrary: w)
  case Nil
  then show ?case by simp
next
  case (Cons x xs)
  obtain g p where x: "x = (g, p)" by (cases x)
  obtain e w' where sp: "step_param g p w = (e, w')" by (cases "step_param g p w")
  from step_param_grad[of g p w q] sp have pg: "grad (tensors w' q) = grad (tensors w q)" by simp
  show ?case
  proof (cases e)
    case None
    with Cons.IH[of w'] sp pg x show ?thesis by simp
  next
    case (Some a)
    with sp pg x show ?thesis by simp
  qed
qed

lemma step_param_sparse:
  assumes "grad (tensors w p) = Some gr" "is_sparse gr"
  shows "step_param g p w =
    (Some (RuntimeError
       ''Adam does not support sparse gradients, please consider SparseAdam instead''), w)"
  using assms by (simp add: step_param_def update_one_def)

lemma step_param_no_grad:
  assumes "grad (tensors w p) = None"
  shows "tensors (snd (step_param g q w)) p = tensors w p \<and>
         state (snd (step_param g q w)) p = state w p"
proof (cases "q = p")
  case True
  with assms show ?thesis by (simp add: step_param_def update_one_def)
next
  case False
  then have "p \<noteq> q" by simp
  from step_param_other[OF this] show ?thesis .
qed

lemma step_pairs_no_grad:
  "grad (tensors w p) = None \<Longrightarrow>
     tensors (snd (step_pairs xs w)) p = tensors w p \<and>
     state (snd (step_pairs xs w)) p = state w p"
proof (induction xs arbitrary: w)
  case Nil
  then show ?case by simp
next
  case (Cons x xs)
  obtain g q where x: "x = (g, q)" by (cases x)
  obtain e w' where sp: "step_param g q w = (e, w')" by (cases "step_param g q w")
  from step_param_no_grad[OF Cons.prems, of g q] sp
  have same: "tensors w' p = tensors w p" "state w' p = state w p" by simp_all
  then have g': "grad (tensors w' p) = None" using Cons.prems by simp
  show ?case
  proof (cases e)
    case None
    with Cons.IH[OF g'] sp same x show ?thesis by simp
  next
    case (Some a)
    with sp same x show ?thesis by simp
  qed
qed

lemmas eval_defs = AdamW_step_def step_param_def update_one_def scalar_param_def
      step_size_def scalar_group_def default_hyper_def update_moments_def init_state_def Let_def


subsection \<open>The effective step size\<close>

text \<open>
  C3. Under the conditions of C1, the update of a parameter uses the step count after
  its increment: with \<open>correct_bias\<close> the effective step size is
  \<open>lr * sqrt (1 - beta2 ^ step) / (1 - beta1 ^ step)\<close> at that count, and the
  parameter is moved by exactly this step size; without \<open>correct_bias\<close> the step size
  is \<open>lr\<close> at every step count.
\<close>

theorem step_uses_step_size:
  fixes w :: world
  defines "w' \<equiv> snd (AdamW_step (None :: (world \<Rightarrow> 'l \<times> world) option) w)"
  assumes dist: "distinct (map snd (schedule (param_groups w)))"
    and mem: "g \<in> set (param_groups w)" "p \<in> set (params g)"
    and ok: "fst (AdamW_step (None :: (world \<Rightarrow> 'l \<times> world) option) w) = Inr None"
    and gr: "grad (tensors w p) = Some gr" "\<not> is_sparse gr"
  shows "\<exists>s' ss. state w' p = Some s' \<and>
      step s' = step (state_before w p) + 1 \<and>
      ss = (if correct_bias g
            then lr g * sqrt (1 - snd (betas g) ^ step s') / (1 - fst (betas g) ^ step s')
            else lr g) \<and>
      step_size g (step s') = Inr ss \<and>
      data (tensors w' p) =
        (let d1 = addcdiv (data (tensors w p)) (exp_avg s')
                    (t_add_scalar (t_sqrt (exp_avg_sq s')) (eps g)) (- ss)
         in if weight_decay g \<noteq> 0 then add_alpha d1 d1 (- lr g * weight_decay g) else d1) \<and>
      (\<not> correct_bias g \<longrightarrow> (\<forall>n. step_size g n = Inr (lr g)))"
proof -
  have u1: "update_one g (tensors w p) (state w p) = (None, tensors w' p, state w' p)"
    unfolding w'_def by (rule AdamW_step_at[OF dist mem ok])
  from update_one_dense[OF gr u1] obtain ss where
    st: "state w' p = Some (update_moments g (gdata gr) (state_before w p))"
    and ss: "step_size g (step (the (state w' p))) = Inr ss"
    and d: "data (tensors w' p) =
             (let d1 = addcdiv (data (tensors w p)) (exp_avg (the (state w' p)))
                         (t_add_scalar (t_sqrt (exp_avg_sq (the (state w' p)))) (eps g)) (- ss)
              in if weight_decay g \<noteq> 0 then add_alpha d1 d1 (- lr g * weight_decay g) else d1)"
    by (auto simp: state_before_def)
  define s' where "s' = update_moments g (gdata gr) (state_before w p)"
  have s': "state w' p = Some s'" using st by (simp add: s'_def)
  have cnt: "step s' = step (state_before w p) + 1" by (simp add: s'_def step_update_moments)
  have ss': "step_size g (step s') = Inr ss" using ss s' by simp
  have e: "ss = (if correct_bias g
            then lr g * sqrt (1 - snd (betas g) ^ step s') / (1 - fst (betas g) ^ step s')
            else lr g)"
    by (rule step_size_cases[OF ss'])
  have d': "data (tensors w' p) =
        (let d1 = addcdiv (data (tensors w p)) (exp_avg s')
                    (t_add_scalar (t_sqrt (exp_avg_sq s')) (eps g)) (- ss)
         in if weight_decay g \<noteq> 0 then add_alpha d1 d1 (- lr g * weight_decay g) else d1)"
    using d s' by simp
  have nb: "\<not> correct_bias g \<longrightarrow> (\<forall>n. step_size g n = Inr (lr g))"
    by (simp add: step_size_def)
  show ?thesis
    by (rule exI[of _ s'], rule exI[of _ ss]) (intro conjI s' cnt e ss' d' nb)
qed

theorem step_uses_step_size_witness:
  "\<exists>s' ss. state (snd (AdamW_step (None :: (world \<Rightarrow> unit \<times> world) option)
                  (scalar_world default_hyper 1 (1 / 2)))) 0 = Some s' \<and>
      step s' = 1 \<and>
      ss = (1 / 1000) * sqrt (1 - (999 / 1000) ^ step s') / (1 - (9 / 10) ^ step s') \<and>
      step_size (scalar_group default_hyper) (step s') = Inr ss"
proof -
  note f = scalar_world_facts[of default_hyper 1 "1 / 2"]
  have 6: "\<not> is_sparse (Gradient [1 / 2] False)" by simp
  have 7: "state_before (scalar_world default_hyper 1 (1 / 2)) 0 =
             init_state (scalar_param 1 (1 / 2))"
    by (simp add: state_before_def scalar_world_def)
  have 8: "correct_bias (scalar_group default_hyper)" "lr (scalar_group default_hyper) = 1 / 1000"
    "betas (scalar_group default_hyper) = (9 / 10, 999 / 1000)"
    by (simp_all add: scalar_group_def default_hyper_def)
  from step_uses_step_size[OF f(1,2) scalar_group_params scalar_world_default_ok f(3) 6]
  obtain s' ss where
    "state (snd (AdamW_step (None :: (world \<Rightarrow> unit \<times> world) option)
                  (scalar_world default_hyper 1 (1 / 2)))) 0 = Some s'"
    "step s' = step (state_before (scalar_world default_hyper 1 (1 / 2)) 0) + 1"
    "ss = (if correct_bias (scalar_group default_hyper)
            then lr (scalar_group default_hyper) *
                 sqrt (1 - snd (betas (scalar_group default_hyper)) ^ step s') /
                 (1 - fst (betas (scalar_group default_hyper)) ^ step s')
            else lr (scalar_group default_hyper))"
    "step_size (scalar_group default_hyper) (step s') = Inr ss"
    by blast
  then show ?thesis
    by (intro exI[of _ s'] exI[of _ ss]) (simp add: 7 8 init_state_def)
qed

subsection \<open>Weight decay\<close>



subsection \<open>Sparse gradients\<close>

text \<open>
  C5. Let the loops reach the parameters \<open>pre\<close> without an exception and then a
  parameter whose gradient is sparse. The step raises the \<open>RuntimeError\<close> of line 40
  and leaves the world as the updates of \<open>pre\<close> left it: those updates are kept, and
  every parameter that is not among \<open>pre\<close> (the offending one and the later ones)
  keeps its tensor and its state entry.
\<close>

theorem sparse_gradient_aborts:
  fixes w :: world
  defines "r \<equiv> AdamW_step (None :: (world \<Rightarrow> 'l \<times> world) option) w"
  assumes sch: "schedule (param_groups w) = pre @ (g, p) # post"
    and pre: "fst (step_pairs pre w) = None"
    and gr: "grad (tensors w p) = Some gr" "is_sparse gr"
  shows "r = (Inl (RuntimeError
                ''Adam does not support sparse gradients, please consider SparseAdam instead''),
              snd (step_pairs pre w)) \<and>
         (\<forall>q. q \<notin> snd ` set pre \<longrightarrow>
            tensors (snd r) q = tensors w q \<and> state (snd r) q = state w q)"
proof -
  obtain w1 where w1: "step_pairs pre w = (None, w1)"
    using pre by (cases "step_pairs pre w") auto
  have "grad (tensors w1 p) = Some gr"
    using step_pairs_grad[of pre w p] w1 gr(1) by simp
  from step_param_sparse[OF this gr(2), of g]
  have r: "r = (Inl (RuntimeError
                ''Adam does not support sparse gradients, please consider SparseAdam instead''),
              snd (step_pairs pre w))"
    unfolding r_def by (simp add: AdamW_step_None sch step_pairs_append w1)
  have "tensors (snd r) q = tensors w q \<and> state (snd r) q = state w q"
    if "q \<notin> snd ` set pre" for q
    using step_pairs_other[OF that, of w] r by simp
  with r show ?thesis by blast
qed

theorem sparse_gradient_aborts_witness:
  "fst (AdamW_step (None :: (world \<Rightarrow> unit \<times> world) option) sparse_world) =
     Inl (RuntimeError
            ''Adam does not support sparse gradients, please consider SparseAdam instead'') \<and>
   tensors (snd (AdamW_step (None :: (world \<Rightarrow> unit \<times> world) option) sparse_world)) 1 =
     \<lparr>data = [Some 1], grad = Some (Gradient [1 / 2] True)\<rparr> \<and>
   state (snd (AdamW_step (None :: (world \<Rightarrow> unit \<times> world) option) sparse_world)) 1 = None \<and>
   tensors (snd (AdamW_step (None :: (world \<Rightarrow> unit \<times> world) option) sparse_world)) 2 =
     scalar_param 1 (1 / 2) \<and>
   state (snd (AdamW_step (None :: (world \<Rightarrow> unit \<times> world) option) sparse_world)) 2 = None \<and>
   state (snd (AdamW_step (None :: (world \<Rightarrow> unit \<times> world) option) sparse_world)) 0 \<noteq> None"
proof -
  let ?g = "(scalar_group default_hyper)\<lparr>params := [0, 1, 2]\<rparr>"
  let ?r = "AdamW_step (None :: (world \<Rightarrow> unit \<times> world) option) sparse_world"
  have 1: "schedule (param_groups sparse_world) = [(?g, 0)] @ (?g, 1) # [(?g, 2)]"
    by (simp add: schedule_def sparse_world_def scalar_group_def)
  have 2: "fst (step_pairs [(?g, 0)] sparse_world) = None"
    by (simp add: sparse_world_def eval_defs)
  have 3: "grad (tensors sparse_world 1) = Some (Gradient [1 / 2] True)"
    by (simp add: sparse_world_def)
  have 4: "is_sparse (Gradient [1 / 2] True)" by simp
  have 5: "state (snd (step_pairs [(?g, 0)] sparse_world)) 0 \<noteq> None"
    by (simp add: sparse_world_def eval_defs)
  have 6: "tensors sparse_world 1 = \<lparr>data = [Some 1], grad = Some (Gradient [1 / 2] True)\<rparr>"
    "tensors sparse_world 2 = scalar_param 1 (1 / 2)"
    "state sparse_world 1 = None" "state sparse_world 2 = None"
    by (simp_all add: sparse_world_def)
  note T = sparse_gradient_aborts[OF 1 2 3 4, where 'l = unit]
  from T have r: "?r = (Inl (RuntimeError
       ''Adam does not support sparse gradients, please consider SparseAdam instead''),
       snd (step_pairs [(?g, 0)] sparse_world))"
    by (rule conjunct1)
  from T have fr: "\<forall>q. q \<notin> snd ` set [(?g, 0)] \<longrightarrow>
      tensors (snd ?r) q = tensors sparse_world q \<and> state (snd ?r) q = state sparse_world q"
    by (rule conjunct2)
  have q1: "tensors (snd ?r) 1 = tensors sparse_world 1 \<and> state (snd ?r) 1 = state sparse_world 1"
    using fr[rule_format, of 1] by simp
  have q2: "tensors (snd ?r) 2 = tensors sparse_world 2 \<and> state (snd ?r) 2 = state sparse_world 2"
    using fr[rule_format, of 2] by simp
  have q0: "state (snd ?r) 0 \<noteq> None" unfolding r snd_conv by (rule 5)
  have q3: "fst ?r = Inl (RuntimeError
       ''Adam does not support sparse gradients, please consider SparseAdam instead'')"
    by (simp only: r fst_conv)
  show ?thesis using q0 q1 q2 q3 by (simp only: 6) simp
qed

subsection \<open>Parameters without a gradient\<close>

text \<open>
  C7. A parameter without a gradient keeps its tensor and its entry of the state (none,
  if it had none; the same step count otherwise) through any number of calls of
  \<open>step()\<close>, whatever the calls return or raise.
\<close>

theorem no_gradient_untouched:
  assumes "grad (tensors w p) = None"
  shows "tensors (repeat_step n w) p = tensors w p \<and> state (repeat_step n w) p = state w p"
  using assms
proof (induction n arbitrary: w)
  case 0
  then show ?case by simp
next
  case (Suc n)
  let ?w1 = "snd (AdamW_step (None :: (world \<Rightarrow> unit \<times> world) option) w)"
  from step_pairs_no_grad[OF Suc.prems, of "schedule (param_groups w)"]
  have same: "tensors ?w1 p = tensors w p" "state ?w1 p = state w p"
    by (simp_all add: AdamW_step_None_snd)
  then have "grad (tensors ?w1 p) = None" using Suc.prems by simp
  from Suc.IH[OF this] same show ?case by simp
qed

theorem no_gradient_untouched_witness:
  "tensors (repeat_step 2 idle_world) 0 = \<lparr>data = [Some 1], grad = None\<rparr> \<and>
   state (repeat_step 2 idle_world) 0 = None"
proof -
  have "grad (tensors idle_world 0) = None" by (simp add: idle_world_def)
  from no_gradient_untouched[OF this, of 2] show ?thesis by (simp add: idle_world_def)
qed

subsection \<open>The closure\<close>

text \<open>
  C8. A step with a closure is the closure, run once on the world as the call finds it,
  followed by the step without a closure on the world the closure leaves; it returns
  the closure's loss unless the loops raise. A step without a closure never returns a
  loss.
\<close>

theorem closure_runs_first:
  "AdamW_step (Some c) w =
     (case c w of (l, w0) \<Rightarrow>
        (case AdamW_step (None :: (world \<Rightarrow> 'l \<times> world) option) w0 of
           (Inl e, w1) \<Rightarrow> (Inl e, w1)
         | (Inr _, w1) \<Rightarrow> (Inr (Some l), w1))) \<and>
   fst (AdamW_step (None :: (world \<Rightarrow> 'l \<times> world) option) w) \<noteq> Inr (Some l')"
  by (simp add: AdamW_step_def split: prod.splits option.splits sum.splits)

theorem closure_runs_first_witness:
  "fst (AdamW_step (Some attach_closure) idle_world) = Inr (Some 7) \<and>
   snd (AdamW_step (Some attach_closure) idle_world) =
     snd (AdamW_step (None :: (world \<Rightarrow> nat \<times> world) option) (snd (attach_closure idle_world))) \<and>
   state (snd (AdamW_step (Some attach_closure) idle_world)) 0 \<noteq> None"
proof -
  define w0 where "w0 = snd (attach_closure idle_world)"
  have ac: "attach_closure idle_world = (7, w0)"
    by (simp add: attach_closure_def w0_def)
  have 1: "fst (AdamW_step (None :: (world \<Rightarrow> nat \<times> world) option) w0) = Inr None"
    by (simp add: w0_def attach_closure_def idle_world_def eval_defs)
  have 2: "state (snd (AdamW_step (None :: (world \<Rightarrow> nat \<times> world) option) w0)) 0 \<noteq> None"
    by (simp add: w0_def attach_closure_def idle_world_def eval_defs)
  obtain w1 where w1: "AdamW_step (None :: (world \<Rightarrow> nat \<times> world) option) w0 = (Inr None, w1)"
    using 1 by (cases "AdamW_step (None :: (world \<Rightarrow> nat \<times> world) option) w0") auto
  from closure_runs_first[where c = attach_closure and w = idle_world and l' = 0]
  have "AdamW_step (Some attach_closure) idle_world =
     (case attach_closure idle_world of (l, w0) \<Rightarrow>
        (case AdamW_step (None :: (world \<Rightarrow> nat \<times> world) option) w0 of
           (Inl e, w1) \<Rightarrow> (Inl e, w1)
         | (Inr _, w1) \<Rightarrow> (Inr (Some l), w1)))"
    by (rule conjunct1)
  then have "AdamW_step (Some attach_closure) idle_world = (Inr (Some 7), w1)"
    unfolding ac prod.case w1 by simp
  with 2 w1 show ?thesis by (simp add: w0_def[symmetric])
qed

subsection \<open>The checks of the constructor\<close>

text \<open>
  C6, as amended. The constructor raises the \<open>ValueError\<close> of the first check that
  fails, in the order learning rate, first beta, second beta, epsilon, without calling
  the base constructor; the learning rate and epsilon have a message of their own, the
  two betas share one, which carries the offending value. When all four checks pass, the
  result is that of the base constructor on the defaults as given. With a base
  constructor that does not fail, construction fails exactly when a check does.
\<close>

theorem init_validation:
  fixes sup :: "'ps \<Rightarrow> hyper \<Rightarrow> error + 'o"
  shows
  "(lr' < 0 \<longrightarrow>
      AdamW_init sup ps lr' (b1, b2) e wd cb =
        Inl (ValueError ''Invalid learning rate: {} - should be >= 0.0'' [lr'])) \<and>
   (0 \<le> lr' \<and> \<not> (0 \<le> b1 \<and> b1 < 1) \<longrightarrow>
      AdamW_init sup ps lr' (b1, b2) e wd cb =
        Inl (ValueError ''Invalid beta parameter: {} - should be in [0.0, 1.0['' [b1])) \<and>
   (0 \<le> lr' \<and> 0 \<le> b1 \<and> b1 < 1 \<and> \<not> (0 \<le> b2 \<and> b2 < 1) \<longrightarrow>
      AdamW_init sup ps lr' (b1, b2) e wd cb =
        Inl (ValueError ''Invalid beta parameter: {} - should be in [0.0, 1.0['' [b2])) \<and>
   (0 \<le> lr' \<and> 0 \<le> b1 \<and> b1 < 1 \<and> 0 \<le> b2 \<and> b2 < 1 \<and> e < 0 \<longrightarrow>
      AdamW_init sup ps lr' (b1, b2) e wd cb =
        Inl (ValueError ''Invalid epsilon value: {} - should be >= 0.0'' [e])) \<and>
   (0 \<le> lr' \<and> 0 \<le> b1 \<and> b1 < 1 \<and> 0 \<le> b2 \<and> b2 < 1 \<and> 0 \<le> e \<longrightarrow>
      AdamW_init sup ps lr' (b1, b2) e wd cb =
        sup ps \<lparr>lr = lr', betas = (b1, b2), eps = e, weight_decay = wd, correct_bias = cb\<rparr>) \<and>
   (isl (AdamW_init Optimizer_init qs lr' (b1, b2) e wd cb) \<longleftrightarrow>
      lr' < 0 \<or> b1 < 0 \<or> 1 \<le> b1 \<or> b2 < 0 \<or> 1 \<le> b2 \<or> e < 0)"
  by (auto simp: AdamW_init_def Optimizer_init_def)

theorem init_validation_witness:
  "AdamW_init Optimizer_init [0] (- 1) (9 / 10, 999 / 1000) (1 / 1000000) 0 True =
     Inl (ValueError ''Invalid learning rate: {} - should be >= 0.0'' [- 1]) \<and>
   AdamW_init Optimizer_init [0] (1 / 1000) (1, 999 / 1000) (1 / 1000000) 0 True =
     Inl (ValueError ''Invalid beta parameter: {} - should be in [0.0, 1.0['' [1]) \<and>
   AdamW_init Optimizer_init [0] (1 / 1000) (9 / 10, - 1 / 2) (1 / 1000000) 0 True =
     Inl (ValueError ''Invalid beta parameter: {} - should be in [0.0, 1.0['' [- 1 / 2]) \<and>
   AdamW_init Optimizer_init [0] (1 / 1000) (9 / 10, 999 / 1000) (- 1) 0 True =
     Inl (ValueError ''Invalid epsilon value: {} - should be >= 0.0'' [- 1]) \<and>
   AdamW_init Optimizer_init [0] 0 (0, 0) 0 0 True =
     Optimizer_init [0]
       \<lparr>lr = 0, betas = (0, 0), eps = 0, weight_decay = 0, correct_bias = True\<rparr> \<and>
   \<not> isl (AdamW_init Optimizer_init [0] 0 (0, 0) 0 0 True)"
  using init_validation[of "- 1" Optimizer_init "[0]" "9 / 10" "999 / 1000" "1 / 1000000" 0 True "[0]"]
    init_validation[of "1 / 1000" Optimizer_init "[0]" 1 "999 / 1000" "1 / 1000000" 0 True "[0]"]
    init_validation[of "1 / 1000" Optimizer_init "[0]" "9 / 10" "- 1 / 2" "1 / 1000000" 0 True "[0]"]
    init_validation[of "1 / 1000" Optimizer_init "[0]" "9 / 10" "999 / 1000" "- 1" 0 True "[0]"]
    init_validation[of 0 Optimizer_init "[0]" 0 0 0 0 True "[0]"]
  by (simp add: Optimizer_init_def)

text \<open>
  C6 as stated fails: a first beta of 2 and a second beta of 2 are different violated
  conditions and raise the same error.
\<close>

theorem beta_errors_coincide:
  "AdamW_init Optimizer_init [0] (1 / 1000) (2, 1 / 2) (1 / 1000000) 0 True =
     Inl (ValueError ''Invalid beta parameter: {} - should be in [0.0, 1.0['' [2]) \<and>
   AdamW_init Optimizer_init [0] (1 / 1000) (1 / 2, 2) (1 / 1000000) 0 True =
     Inl (ValueError ''Invalid beta parameter: {} - should be in [0.0, 1.0['' [2])"
  by (simp add: AdamW_init_def)

subsection \<open>Weight decay is not checked\<close>




subsection \<open>Two steps are not one doubled step\<close>

lemma denom_ok:
  fixes v :: real
  assumes "0 \<le> v"
  shows "\<not> v < 0" "sqrt v + 1 / 1000000 \<noteq> 0"
proof -
  show "\<not> v < 0" using assms by simp
  have "0 < sqrt v + 1 / 1000000" using assms by (intro add_nonneg_pos) simp_all
  then show "sqrt v + 1 / 1000000 \<noteq> 0" by simp
qed

lemma step_size_1: "step_size (scalar_group default_hyper) (Suc 0) = Inr (sqrt (1 / 1000) / 100)"
  by (simp add: step_size_def scalar_group_def default_hyper_def)

lemma step_size_2:
  "step_size (scalar_group default_hyper) 2 = Inr (sqrt (1999 / 1000000) / 190)"
  by (simp add: step_size_def scalar_group_def default_hyper_def power2_eq_square)

lemma scalar_step:
  "snd (AdamW_step (None :: (world \<Rightarrow> 'l \<times> world) option)
          \<lparr>param_groups = [scalar_group h], state = S, tensors = T\<rparr>) =
     \<lparr>param_groups = [scalar_group h],
      state = S(0 := snd (snd (update_one (scalar_group h) (T 0) (S 0)))),
      tensors = T(0 := fst (snd (update_one (scalar_group h) (T 0) (S 0))))\<rparr>"
  by (simp add: AdamW_step_def step_param_def scalar_group_def split: prod.splits option.splits)

lemma scalar_first_update:
  assumes "betas h = (9 / 10, 999 / 1000)" "eps h = 1 / 1000000" "weight_decay h = 0"
    "correct_bias h"
  shows "update_one (scalar_group h) (scalar_param x d) None =
     (None,
      \<lparr>data = [Some (x - lr h * sqrt (1 / 1000) * 10 * (d / 10) /
                          (sqrt (d ^ 2 / 1000) + 1 / 1000000))],
       grad = Some (Gradient [d] False)\<rparr>,
      Some \<lparr>step = 1, exp_avg = [d / 10], exp_avg_sq = [d ^ 2 / 1000]\<rparr>)"
proof -
  have "0 \<le> d ^ 2 / 1000" by simp
  from denom_ok[OF this] assms show ?thesis
    by (simp add: update_one_def scalar_param_def step_size_def scalar_group_def
      update_moments_def init_state_def Let_def zeros_like_def t_add_def t_scale_def t_pow2_def
      addcdiv_def t_add_scalar_def t_sqrt_def)
qed

lemma scalar_second_update:
  assumes "0 \<le> v"
  shows "update_one (scalar_group default_hyper)
      \<lparr>data = [Some x], grad = Some (Gradient [d] False)\<rparr>
      (Some \<lparr>step = 1, exp_avg = [m], exp_avg_sq = [v]\<rparr>) =
     (None,
      \<lparr>data = [Some (x - sqrt (1999 / 1000000) / 190 * (9 / 10 * m + 1 / 10 * d) /
                 (sqrt (999 / 1000 * v + 1 / 1000 * d ^ 2) + 1 / 1000000))],
       grad = Some (Gradient [d] False)\<rparr>,
      Some \<lparr>step = 2, exp_avg = [9 / 10 * m + 1 / 10 * d],
            exp_avg_sq = [999 / 1000 * v + 1 / 1000 * d ^ 2]\<rparr>)"
proof -
  have "0 \<le> 999 / 1000 * v + 1 / 1000 * d ^ 2"
    using assms by (intro add_nonneg_nonneg) simp_all
  from denom_ok[OF this] step_size_2 show ?thesis
    by (simp add: update_one_def scalar_group_def default_hyper_def
      update_moments_def Let_def t_add_def t_scale_def t_pow2_def
      addcdiv_def t_add_scalar_def t_sqrt_def numeral_2_eq_2)
qed

lemma one_step_data:
  assumes "betas h = (9 / 10, 999 / 1000)" "eps h = 1 / 1000000" "weight_decay h = 0"
    "correct_bias h"
  shows "data (tensors (repeat_step 1 (scalar_world h x d)) 0) =
           [Some (x - lr h * sqrt (1 / 1000) * 10 * (d / 10) /
                        (sqrt (d ^ 2 / 1000) + 1 / 1000000))]"
  by (simp add: scalar_world_def scalar_step scalar_first_update[OF assms])

lemma two_steps_data:
  "data (tensors (repeat_step 2 (scalar_world default_hyper x d)) 0) =
     [Some (x - lr default_hyper * sqrt (1 / 1000) * 10 * (d / 10) /
                  (sqrt (d ^ 2 / 1000) + 1 / 1000000)
        - sqrt (1999 / 1000000) / 190 * (9 / 10 * (d / 10) + 1 / 10 * d) /
                 (sqrt (999 / 1000 * (d ^ 2 / 1000) + 1 / 1000 * d ^ 2) + 1 / 1000000))]"
proof -
  have h: "betas default_hyper = (9 / 10, 999 / 1000)" "eps default_hyper = 1 / 1000000"
    "weight_decay default_hyper = 0" "correct_bias default_hyper"
    by (simp_all add: default_hyper_def)
  have v: "0 \<le> d ^ 2 / 1000" by simp
  have two: "repeat_step 2 w = repeat_step (Suc (Suc 0)) w" for w
    by (simp only: numeral_2_eq_2)
  show ?thesis
    unfolding two repeat_step.simps scalar_world_def scalar_step
    by (simp add: scalar_first_update[OF h] scalar_second_update[OF v] del: One_nat_def)
qed

lemma ratio_lower:
  fixes a :: real
  assumes "1 / 100 < a"
  shows "1 / 2000 < a / 2000 / (a / 2 + 1 / 1000000)"
proof -
  have pos: "0 < a / 2 + 1 / 1000000" using assms by simp
  have "1 / 2000 * (a / 2 + 1 / 1000000) < a / 2000" using assms by simp
  then show ?thesis using pos by (simp add: pos_less_divide_eq)
qed

lemma ratio_inj:
  fixes a b :: real
  assumes "0 < a" "0 < b" "a / 2000 / (a / 2 + 1 / 1000000) = b / 2000 / (b / 2 + 1 / 1000000)"
  shows "a = b"
proof -
  have pa: "0 < a / 2 + 1 / 1000000" and pb: "0 < b / 2 + 1 / 1000000" using assms by simp_all
  from assms(3) have "a * (b / 2 + 1 / 1000000) = b * (a / 2 + 1 / 1000000)"
    using pa pb by (simp add: field_simps)
  then show ?thesis by (simp add: algebra_simps)
qed

lemma ratio_upper:
  fixes a :: real
  assumes "0 < a"
  shows "a / 1000 / (a + 1 / 1000000) < 1 / 1000"
proof -
  have pos: "0 < a + 1 / 1000000" using assms by simp
  have "a / 1000 < 1 / 1000 * (a + 1 / 1000000)" by simp
  then show ?thesis using pos by (simp add: pos_divide_less_eq)
qed

text \<open>
  C9. With the default hyperparameters (\<open>correct_bias\<close> true), the parameter 1 and the
  gradient 1/2: two steps with this gradient leave a parameter that differs from the
  one a single step with the doubled learning rate leaves, and from the one a single
  step with the doubled gradient leaves; the effective step sizes of the first and the
  second step differ.
\<close>

theorem two_steps_not_doubled:
  "data (tensors (repeat_step 2 (scalar_world default_hyper 1 (1 / 2))) 0) \<noteq>
     data (tensors (repeat_step 1
       (scalar_world (default_hyper\<lparr>lr := 2 * lr default_hyper\<rparr>) 1 (1 / 2))) 0) \<and>
   data (tensors (repeat_step 2 (scalar_world default_hyper 1 (1 / 2))) 0) \<noteq>
     data (tensors (repeat_step 1 (scalar_world default_hyper 1 (2 * (1 / 2)))) 0) \<and>
   step_size (scalar_group default_hyper) 1 \<noteq> step_size (scalar_group default_hyper) 2"
proof -
  define a :: real where "a = sqrt (1 / 1000)"
  define b :: real where "b = sqrt (1999 / 1000000)"
  have a2: "a ^ 2 = 1 / 1000" and b2: "b ^ 2 = 1999 / 1000000"
    by (simp_all add: a_def b_def)
  have a_lb: "1 / 100 < a" unfolding a_def by (rule real_less_rsqrt) (simp add: power2_eq_square)
  have b_lb: "1 / 100 < b" unfolding b_def by (rule real_less_rsqrt) (simp add: power2_eq_square)
  have ab: "a \<noteq> b" using a2 b2 by auto
  have s1: "sqrt ((1 / 2) ^ 2 / 1000) = a / 2"
    using a_lb by (intro real_sqrt_unique) (simp_all add: power_divide a2)
  have s2: "sqrt (999 / 1000 * ((1 / 2) ^ 2 / 1000) + 1 / 1000 * (1 / 2) ^ 2) = b / 2"
    using b_lb by (intro real_sqrt_unique) (simp_all add: power_divide b2)
  have s3: "sqrt ((2 * (1 / 2)) ^ 2 / 1000) = a"
    by (simp add: a_def)
  have h: "betas default_hyper = (9 / 10, 999 / 1000)" "eps default_hyper = 1 / 1000000"
    "weight_decay default_hyper = 0" "correct_bias default_hyper" "lr default_hyper = 1 / 1000"
    by (simp_all add: default_hyper_def)
  let ?A = "a / 2000 / (a / 2 + 1 / 1000000)"
  let ?B = "b / 2000 / (b / 2 + 1 / 1000000)"
  let ?C = "a / 1000 / (a + 1 / 1000000)"
  have two: "data (tensors (repeat_step 2 (scalar_world default_hyper 1 (1 / 2))) 0) =
               [Some (1 - ?A - ?B)]"
    unfolding two_steps_data s1 s2 h a_def[symmetric] b_def[symmetric]
    using a_lb b_lb by (simp add: field_simps)
  have "data (tensors (repeat_step 1
       (scalar_world (default_hyper\<lparr>lr := 2 * lr default_hyper\<rparr>) 1 (1 / 2))) 0) =
      [Some (1 - lr (default_hyper\<lparr>lr := 2 * lr default_hyper\<rparr>) * sqrt (1 / 1000) * 10
             * (1 / 2 / 10) / (sqrt ((1 / 2) ^ 2 / 1000) + 1 / 1000000))]"
    by (rule one_step_data) (simp_all add: h)
  then have dl: "data (tensors (repeat_step 1
       (scalar_world (default_hyper\<lparr>lr := 2 * lr default_hyper\<rparr>) 1 (1 / 2))) 0) =
               [Some (1 - 2 * ?A)]"
    unfolding s1 a_def[symmetric] using a_lb by (simp add: h field_simps)
  have "data (tensors (repeat_step 1 (scalar_world default_hyper 1 (2 * (1 / 2)))) 0) =
      [Some (1 - lr default_hyper * sqrt (1 / 1000) * 10
             * (2 * (1 / 2) / 10) / (sqrt ((2 * (1 / 2)) ^ 2 / 1000) + 1 / 1000000))]"
    by (rule one_step_data) (simp_all add: h)
  then have dg: "data (tensors (repeat_step 1 (scalar_world default_hyper 1 (2 * (1 / 2)))) 0) =
               [Some (1 - ?C)]"
    unfolding s3 a_def[symmetric] using a_lb by (simp add: h field_simps)
  have AB: "?A \<noteq> ?B"
    using ratio_inj[of a b] a_lb b_lb ab by auto
  have C: "?A + ?B \<noteq> ?C"
  proof -
    have 1: "?C < 1 / 1000" using a_lb by (intro ratio_upper) simp
    have 2: "1 / 2000 + 1 / 2000 < ?A + ?B"
      by (intro add_strict_mono ratio_lower a_lb b_lb)
    have 3: "(1 :: real) / 1000 = 1 / 2000 + 1 / 2000" by simp
    from 1 have "?C < 1 / 2000 + 1 / 2000" by (simp only: 3)
    then have "?C < ?A + ?B" using 2 by (rule less_trans)
    then show ?thesis by (rule less_imp_neq[symmetric, THEN not_sym, THEN not_sym])
  qed
  have ss: "step_size (scalar_group default_hyper) 1 \<noteq> step_size (scalar_group default_hyper) 2"
  proof
    assume "step_size (scalar_group default_hyper) 1 = step_size (scalar_group default_hyper) 2"
    then have "a / 100 = b / 190"
      using step_size_1 step_size_2 by (simp add: a_def b_def)
    then have "(a / 100) ^ 2 = (b / 190) ^ 2" by (rule arg_cong)
    then show False by (simp add: power_divide a2 b2)
  qed
  from AB C show ?thesis unfolding two dl dg using ss by auto
qed

end
